theory Spec2Isabelle
  imports Complex_Main
begin

section \<open>Numeric values\<close>

text \<open>
  The tensors of \<^verbatim>\<open>utils/heatmap.py\<close> hold floating-point numbers. The model keeps what
  the arithmetic of the code can tell apart: a finite value, the two infinities and
  not-a-number. A finite value is an exact real. Three things are outside the model:
  rounding, the sign of zero, and the overflow of a sum or product of finite values to an
  infinity. An activation or a gradient that already holds an infinity or not-a-number
  is in the model, and so is every infinity or not-a-number that a division makes. A
  theorem below that needs finite values has them as a hypothesis: of the activation and
  the gradient where it follows the arithmetic of lines 44 to 51, of the raw heatmap
  where it is about the normalization of line 54.
\<close>

datatype fl = Fin real | PInf | NInf | NaN

fun fl_add :: "fl \<Rightarrow> fl \<Rightarrow> fl" where
  "fl_add (Fin a) (Fin b) = Fin (a + b)"
| "fl_add NaN _ = NaN"
| "fl_add _ NaN = NaN"
| "fl_add PInf NInf = NaN"
| "fl_add NInf PInf = NaN"
| "fl_add PInf _ = PInf"
| "fl_add _ PInf = PInf"
| "fl_add NInf _ = NInf"
| "fl_add _ NInf = NInf"

fun fl_neg :: "fl \<Rightarrow> fl" where
  "fl_neg (Fin a) = Fin (- a)"
| "fl_neg PInf = NInf"
| "fl_neg NInf = PInf"
| "fl_neg NaN = NaN"

fun fl_mul :: "fl \<Rightarrow> fl \<Rightarrow> fl" where
  "fl_mul (Fin a) (Fin b) = Fin (a * b)"
| "fl_mul NaN _ = NaN"
| "fl_mul _ NaN = NaN"
| "fl_mul (Fin a) y = (if a = 0 then NaN else if 0 < a then y else fl_neg y)"
| "fl_mul x (Fin b) = (if b = 0 then NaN else if 0 < b then x else fl_neg x)"
| "fl_mul PInf y = y"
| "fl_mul NInf y = fl_neg y"

text \<open>
  Division never raises on floating-point tensors: \<open>0 / 0\<close> is \<open>NaN\<close>, and a non-zero
  value over zero is an infinity.
\<close>

fun fl_div :: "fl \<Rightarrow> fl \<Rightarrow> fl" where
  "fl_div (Fin a) (Fin b) =
     (if b \<noteq> 0 then Fin (a / b)
      else if a = 0 then NaN
      else if 0 < a then PInf else NInf)"
| "fl_div NaN _ = NaN"
| "fl_div _ NaN = NaN"
| "fl_div (Fin a) PInf = Fin 0"
| "fl_div (Fin a) NInf = Fin 0"
| "fl_div PInf (Fin b) = (if b < 0 then NInf else PInf)"
| "fl_div NInf (Fin b) = (if b < 0 then PInf else NInf)"
| "fl_div PInf PInf = NaN"
| "fl_div PInf NInf = NaN"
| "fl_div NInf PInf = NaN"
| "fl_div NInf NInf = NaN"

fun fl_maximum :: "fl \<Rightarrow> fl \<Rightarrow> fl" where
  "fl_maximum (Fin a) (Fin b) = Fin (max a b)"
| "fl_maximum NaN _ = NaN"
| "fl_maximum _ NaN = NaN"
| "fl_maximum PInf _ = PInf"
| "fl_maximum _ PInf = PInf"
| "fl_maximum NInf y = y"
| "fl_maximum x NInf = x"

definition fl_sum :: "fl list \<Rightarrow> fl" where
  "fl_sum xs = foldr fl_add xs (Fin 0)"

section \<open>Tensors\<close>

text \<open>
  A tensor is its shape and its elements in row-major order, as the arrays of the code
  are. A well-formed tensor has as many elements as its shape says.
\<close>

record 'a tensor =
  shape :: "nat list"
  elems :: "'a list"

definition wf_tensor :: "'a tensor \<Rightarrow> bool" where
  "wf_tensor t = (length (elems t) = prod_list (shape t))"

definition lift :: "real tensor \<Rightarrow> fl tensor" where
  "lift t = \<lparr>shape = shape t, elems = map Fin (elems t)\<rparr>"

datatype exn =
    ValueError              \<comment> \<open>\<^verbatim>\<open>model.get_layer\<close>: no such layer\<close>
  | InvalidArgumentError    \<comment> \<open>a tensor operation applied to a shape it does not accept\<close>
  | NotModelled             \<comment> \<open>a batched right operand of \<^verbatim>\<open>@\<close>, which this model leaves out\<close>
  | TypeError               \<comment> \<open>\<^verbatim>\<open>plt.imshow\<close>: invalid shape for image data\<close>
  | Cv2Error                \<comment> \<open>\<^verbatim>\<open>cv2.resize\<close> rejects its input\<close>
  | FileNotFoundError       \<comment> \<open>\<^verbatim>\<open>plt.savefig\<close>: the directory does not exist\<close>

subsection \<open>The tensor operations the code calls\<close>

text \<open>\<^verbatim>\<open>t[0]\<close>: the first slice along the leading axis.\<close>

definition index0 :: "'a tensor \<Rightarrow> exn + 'a tensor" where
  "index0 t =
     (case shape t of
        [] \<Rightarrow> Inl InvalidArgumentError
      | d # ds \<Rightarrow>
          if d = 0 then Inl InvalidArgumentError
          else Inr \<lparr>shape = ds, elems = take (prod_list ds) (elems t)\<rparr>)"

text \<open>
  \<^verbatim>\<open>tf.argmax\<close> on a vector: a left-to-right scan that replaces the best position only
  on a strictly larger value, so the first of several equal maxima is kept.
\<close>

fun argmax_from :: "nat \<Rightarrow> real \<Rightarrow> nat \<Rightarrow> real list \<Rightarrow> nat" where
  "argmax_from bi bv i [] = bi"
| "argmax_from bi bv i (x # xs) =
     (if bv < x then argmax_from i x (Suc i) xs else argmax_from bi bv (Suc i) xs)"

definition argmax :: "real list \<Rightarrow> exn + nat" where
  "argmax xs = (case xs of [] \<Rightarrow> Inl InvalidArgumentError | x # ys \<Rightarrow> Inr (argmax_from 0 x 1 ys))"

text \<open>
  \<^verbatim>\<open>tf.reduce_mean(t, axis=(0, 1, 2))\<close>: the three leading axes are averaged away. With
  \<open>m\<close> the number of elements of one position of those axes, element \<open>r\<close> of the result
  is the sum of the elements at offsets \<open>r\<close>, \<open>m + r\<close>, \<open>2 m + r\<close>, ... divided by the
  number of positions. The mean of no elements is \<open>0 / 0\<close>.
\<close>

definition reduce_mean_012 :: "fl tensor \<Rightarrow> exn + fl tensor" where
  "reduce_mean_012 t =
     (case shape t of
        d0 # d1 # d2 # rest \<Rightarrow>
          (let m = prod_list rest; n = d0 * d1 * d2
           in Inr \<lparr>shape = rest,
                   elems = map (\<lambda>r. fl_div (fl_sum (map (\<lambda>q. elems t ! (q * m + r)) [0..<n]))
                                            (Fin (real n))) [0..<m]\<rparr>)
      | _ \<Rightarrow> Inl InvalidArgumentError)"

text \<open>\<^verbatim>\<open>t[..., tf.newaxis]\<close>: a trailing axis of size one.\<close>

definition newaxis_last :: "'a tensor \<Rightarrow> 'a tensor" where
  "newaxis_last t = \<lparr>shape = shape t @ [1], elems = elems t\<rparr>"

text \<open>
  \<^verbatim>\<open>a @ b\<close> with a matrix \<open>b\<close> of shape \<open>[k, n]\<close>: every row of length \<open>k\<close> along the last
  axis of \<open>a\<close> is multiplied with every column of \<open>b\<close>; the leading axes of \<open>a\<close> are kept.
\<close>

definition dot :: "fl list \<Rightarrow> fl list \<Rightarrow> fl" where
  "dot xs ys = fl_sum (map2 fl_mul xs ys)"

definition matmul :: "fl tensor \<Rightarrow> fl tensor \<Rightarrow> exn + fl tensor" where
  "matmul a b =
     (case shape b of
        [k, n] \<Rightarrow>
          (if length (shape a) < 2 then Inl InvalidArgumentError
           else if last (shape a) \<noteq> k then Inl InvalidArgumentError
           else Inr \<lparr>shape = butlast (shape a) @ [n],
                     elems = concat (map (\<lambda>r. map (\<lambda>q. dot (take k (drop (r * k) (elems a)))
                                                            (map (\<lambda>i. elems b ! (i * n + q)) [0..<k]))
                                                 [0..<n])
                                         [0..<prod_list (butlast (shape a))])\<rparr>)
      | [] \<Rightarrow> Inl InvalidArgumentError
      | [k] \<Rightarrow> Inl InvalidArgumentError
      | _ \<Rightarrow> Inl NotModelled)"

text \<open>\<^verbatim>\<open>tf.squeeze(t)\<close> with no axis given: every axis of size one is removed.\<close>

definition squeeze :: "'a tensor \<Rightarrow> 'a tensor" where
  "squeeze t = \<lparr>shape = filter (\<lambda>d. d \<noteq> 1) (shape t), elems = elems t\<rparr>"

text \<open>\<^verbatim>\<open>tf.maximum(t, s)\<close> and \<^verbatim>\<open>t / s\<close> with a scalar \<open>s\<close>, which is broadcast.\<close>

definition maximum :: "fl tensor \<Rightarrow> fl \<Rightarrow> fl tensor" where
  "maximum t s = \<lparr>shape = shape t, elems = map (\<lambda>x. fl_maximum x s) (elems t)\<rparr>"

definition divide_by :: "fl tensor \<Rightarrow> fl \<Rightarrow> fl tensor" where
  "divide_by t s = \<lparr>shape = shape t, elems = map (\<lambda>x. fl_div x s) (elems t)\<rparr>"

text \<open>\<^verbatim>\<open>tf.math.reduce_max(t)\<close>: the maximum of all elements, minus infinity for none.\<close>

definition reduce_max :: "fl tensor \<Rightarrow> fl" where
  "reduce_max t = foldr fl_maximum (elems t) NInf"

section \<open>The heatmap generator\<close>

text \<open>
  The Keras model is an outside collaborator. For an input it gives the output of a
  named layer (or has no layer of that name), the prediction tensor, and, through the
  gradient tape, the gradient of the class channel \<^verbatim>\<open>preds[:, pred_index]\<close> with respect
  to the named layer's output. The layer's output and the gradient are floating-point
  tensors and may hold infinities, as a network that overflows gives; the predictions
  are finite.
\<close>

record keras_model =
  layer_output :: "string \<Rightarrow> (real tensor \<Rightarrow> fl tensor) option"
  model_output :: "real tensor \<Rightarrow> real tensor"
  gradient :: "string \<Rightarrow> real tensor \<Rightarrow> nat \<Rightarrow> fl tensor"

text \<open>Line 35, \<^verbatim>\<open>pred_index = tf.argmax(preds[0])\<close>, for predictions of shape \<open>[batch, classes]\<close>.\<close>

definition pred_index_of :: "real tensor \<Rightarrow> exn + nat" where
  "pred_index_of preds =
     (case shape preds of
        [b, n] \<Rightarrow> (case index0 preds of Inl e \<Rightarrow> Inl e | Inr row \<Rightarrow> argmax (elems row))
      | _ \<Rightarrow> Inl InvalidArgumentError)"

text \<open>Line 44.\<close>

definition pooled_grads :: "fl tensor \<Rightarrow> exn + fl tensor" where
  "pooled_grads grads = reduce_mean_012 grads"

text \<open>Lines 44 to 51: from the layer's output and the gradient to the raw heatmap.\<close>

definition class_activation :: "fl tensor \<Rightarrow> fl tensor \<Rightarrow> exn + fl tensor" where
  "class_activation last_conv_layer_output grads =
     (case pooled_grads grads of
        Inl e \<Rightarrow> Inl e
      | Inr pooled \<Rightarrow>
          (case index0 last_conv_layer_output of
             Inl e \<Rightarrow> Inl e
           | Inr a0 \<Rightarrow>
               (case matmul a0 (newaxis_last pooled) of
                  Inl e \<Rightarrow> Inl e
                | Inr heatmap \<Rightarrow> Inr (squeeze heatmap))))"

text \<open>Lines 27 to 51: the raw heatmap of an input image.\<close>

definition raw_heatmap :: "real tensor \<Rightarrow> keras_model \<Rightarrow> string \<Rightarrow> exn + fl tensor" where
  "raw_heatmap img_array model last_conv_layer_name =
     (case layer_output model last_conv_layer_name of
        None \<Rightarrow> Inl ValueError
      | Some layer \<Rightarrow>
          (case pred_index_of (model_output model img_array) of
             Inl e \<Rightarrow> Inl e
           | Inr pred_index \<Rightarrow>
               class_activation (layer img_array)
                 (gradient model last_conv_layer_name img_array pred_index)))"

text \<open>Line 54: \<^verbatim>\<open>tf.maximum(heatmap, 0) / tf.math.reduce_max(heatmap)\<close>.\<close>

definition normalize_heatmap :: "fl tensor \<Rightarrow> fl tensor" where
  "normalize_heatmap heatmap = divide_by (maximum heatmap (Fin 0)) (reduce_max heatmap)"

definition make_heatmap :: "real tensor \<Rightarrow> keras_model \<Rightarrow> string \<Rightarrow> exn + fl tensor" where
  "make_heatmap img_array model last_conv_layer_name =
     (case raw_heatmap img_array model last_conv_layer_name of
        Inl e \<Rightarrow> Inl e
      | Inr heatmap \<Rightarrow> Inr (normalize_heatmap heatmap))"

subsection \<open>The specification's readings, for comparison\<close>

text \<open>
  The specification's words for the normalization: clamp negative values to zero, then
  divide elementwise by the global maximum of the resulting array.
\<close>

definition normalize_spec :: "fl tensor \<Rightarrow> fl tensor" where
  "normalize_spec heatmap =
     (let clamped = maximum heatmap (Fin 0) in divide_by clamped (reduce_max clamped))"

text \<open>The range the specification gives the normalized values: a number from 0 to 1.\<close>

fun in_unit_interval :: "fl \<Rightarrow> bool" where
  "in_unit_interval (Fin x) = (0 \<le> x \<and> x \<le> 1)"
| "in_unit_interval PInf = False"
| "in_unit_interval NInf = False"
| "in_unit_interval NaN = False"

text \<open>Row-major offset of position \<open>(n, i, j, k)\<close> in a tensor of shape \<open>[b, h, w, c]\<close>.\<close>

definition offset4 :: "nat \<Rightarrow> nat \<Rightarrow> nat \<Rightarrow> nat \<Rightarrow> nat \<Rightarrow> nat \<Rightarrow> nat \<Rightarrow> nat" where
  "offset4 h w c n i j k = ((n * h + i) * w + j) * c + k"

text \<open>
  The specification's words for the pooled importance of channel \<open>k\<close>: the gradient
  averaged over the batch axis and both spatial axes.
\<close>

definition mean_over_batch_and_space :: "nat \<Rightarrow> nat \<Rightarrow> nat \<Rightarrow> nat \<Rightarrow> real list \<Rightarrow> nat \<Rightarrow> fl" where
  "mean_over_batch_and_space b h w c g k =
     fl_div (Fin (\<Sum>n\<leftarrow>[0..<b]. \<Sum>i\<leftarrow>[0..<h]. \<Sum>j\<leftarrow>[0..<w]. g ! offset4 h w c n i j k))
            (Fin (real (b * h * w)))"

text \<open>
  What the theorems below ask of one run of the model: the named layer exists, its
  output holds the finite values \<open>conv\<close>, a well-formed tensor of shape \<open>[b, h, w, c]\<close>
  with at least one batch element, the predictions select class \<open>idx\<close>, and the tape's
  gradient for that class holds the finite values \<open>grads\<close>, well formed and shaped like
  the layer's output.
\<close>

definition valid_run ::
  "keras_model \<Rightarrow> real tensor \<Rightarrow> string \<Rightarrow> real tensor \<Rightarrow> real tensor \<Rightarrow> nat
     \<Rightarrow> nat \<Rightarrow> nat \<Rightarrow> nat \<Rightarrow> nat \<Rightarrow> bool" where
  "valid_run model img_array name conv grads idx b h w c =
     (layer_output model name \<noteq> None
      \<and> the (layer_output model name) img_array = lift conv
      \<and> pred_index_of (model_output model img_array) = Inr idx
      \<and> gradient model name img_array idx = lift grads
      \<and> shape conv = [b, h, w, c] \<and> wf_tensor conv \<and> 0 < b
      \<and> shape grads = [b, h, w, c] \<and> wf_tensor grads)"

section \<open>The overlay renderer\<close>

text \<open>
  What \<^verbatim>\<open>image\<close> touches outside its arguments: the images drawn so far on pyplot's
  current axes (pyplot keeps them between calls), and the file system, as the set of
  existing directories and the files with their contents. A saved figure is the picture
  of the images on the axes, bottom first.
\<close>

record drawn =
  picture :: "fl tensor"
  cmap :: "string option"
  alpha :: "real option"

datatype png = Png "drawn list"

record world =
  axes_images :: "drawn list"
  dirs :: "string set"
  files :: "string \<Rightarrow> png option"

text \<open>
  \<^verbatim>\<open>plt.imshow\<close> accepts image data of shape \<open>(M, N)\<close>, \<open>(M, N, 1)\<close>, \<open>(M, N, 3)\<close> or
  \<open>(M, N, 4)\<close> and adds it on top of the axes; any other shape is a \<^verbatim>\<open>TypeError\<close>.
\<close>

definition valid_image_shape :: "nat list \<Rightarrow> bool" where
  "valid_image_shape s =
     (length s = 2 \<or> (length s = 3 \<and> (last s = 1 \<or> last s = 3 \<or> last s = 4)))"

definition imshow :: "fl tensor \<Rightarrow> string option \<Rightarrow> real option \<Rightarrow> world \<Rightarrow> exn + world" where
  "imshow X cm al wd =
     (if valid_image_shape (shape X)
      then Inr (wd\<lparr>axes_images := axes_images wd @ [\<lparr>picture = X, cmap = cm, alpha = al\<rparr>]\<rparr>)
      else Inl TypeError)"

text \<open>
  \<^verbatim>\<open>plt.savefig(fname)\<close> opens \<open>fname\<close> for writing: the directory part must exist, and a
  file already there is replaced.
\<close>

definition dirname :: "string \<Rightarrow> string" where
  "dirname p = rev (drop 1 (dropWhile (\<lambda>ch. ch \<noteq> CHR ''/'') (rev p)))"

definition savefig :: "string \<Rightarrow> world \<Rightarrow> exn + world" where
  "savefig fname wd =
     (if dirname fname \<in> dirs wd
      then Inr (wd\<lparr>files := (files wd)(fname \<mapsto> Png (axes_images wd))\<rparr>)
      else Inl FileNotFoundError)"

text \<open>
  \<^verbatim>\<open>cv2.resize\<close> is a parameter of the model: \<open>resize src (width, height)\<close> gives the
  interpolated array or an error. What is asked of it is that an array it returns has
  the requested spatial size.
\<close>

definition resize_contract :: "(fl tensor \<Rightarrow> nat \<times> nat \<Rightarrow> exn + fl tensor) \<Rightarrow> bool" where
  "resize_contract resize =
     (\<forall>src wdt hgt dst. resize src (wdt, hgt) = Inr dst \<longrightarrow> take 2 (shape dst) = [hgt, wdt])"

text \<open>
  Lines 69 to 72. The method returns \<^verbatim>\<open>plt\<close>; the model returns the outcome (\<open>None\<close>
  for a normal return) with the world as the call leaves it. An exception leaves what
  was drawn before it.
\<close>

definition save_path :: string where
  "save_path = ''data/save_fig/fig_saved.png''"

definition image_method ::
  "(fl tensor \<Rightarrow> nat \<times> nat \<Rightarrow> exn + fl tensor) \<Rightarrow> real tensor \<Rightarrow> fl tensor \<Rightarrow> world
     \<Rightarrow> exn option \<times> world" where
  "image_method resize image_arr heatmap wd =
     (case imshow (lift image_arr) (Some ''gray'') None wd of
        Inl e \<Rightarrow> (Some e, wd)
      | Inr wd1 \<Rightarrow>
          (case resize heatmap (64, 64) of
             Inl e \<Rightarrow> (Some e, wd1)
           | Inr resized \<Rightarrow>
               (case imshow resized None (Some (4 / 10)) wd1 of
                  Inl e \<Rightarrow> (Some e, wd1)
                | Inr wd2 \<Rightarrow>
                    (case savefig save_path wd2 of
                       Inl e \<Rightarrow> (Some e, wd2)
                     | Inr wd3 \<Rightarrow> (None, wd3)))))"

section \<open>Auxiliary definitions\<close>

text \<open>The mean of channel \<open>k\<close> of a gradient with \<open>n\<close> positions and \<open>c\<close> channels, as a real.\<close>

definition channel_mean :: "nat \<Rightarrow> nat \<Rightarrow> real list \<Rightarrow> nat \<Rightarrow> real" where
  "channel_mean n c g k = (\<Sum>q\<leftarrow>[0..<n]. g ! (q * c + k)) / real n"

text \<open>
  A model with one layer, \<^verbatim>\<open>conv_last\<close>, whose output, predictions and gradients do not
  depend on the input, given by floating-point tensors (\<open>model_with\<close>) or by finite ones
  (\<open>model_of\<close>); and a resize that fills the requested size with the first element of its
  source. They give the theorems below concrete inputs.
\<close>

definition model_with :: "fl tensor \<Rightarrow> real tensor \<Rightarrow> (nat \<Rightarrow> fl tensor) \<Rightarrow> keras_model" where
  "model_with conv preds grads =
     \<lparr>layer_output = (\<lambda>name. if name = ''conv_last'' then Some (\<lambda>_. conv) else None),
      model_output = (\<lambda>_. preds),
      gradient = (\<lambda>_ _ i. grads i)\<rparr>"

definition model_of :: "real tensor \<Rightarrow> real tensor \<Rightarrow> (nat \<Rightarrow> real tensor) \<Rightarrow> keras_model" where
  "model_of conv preds grads = model_with (lift conv) preds (\<lambda>i. lift (grads i))"

definition fill_resize :: "fl tensor \<Rightarrow> nat \<times> nat \<Rightarrow> exn + fl tensor" where
  "fill_resize src dsize =
     (case elems src of
        [] \<Rightarrow> Inl Cv2Error
      | x # _ \<Rightarrow> Inr \<lparr>shape = [snd dsize, fst dsize],
                       elems = replicate (snd dsize * fst dsize) x\<rparr>)"

definition demo_img :: "real tensor" where
  "demo_img = \<lparr>shape = [1, 2, 2, 1], elems = [0, 0, 0, 0]\<rparr>"

definition demo_conv :: "real tensor" where
  "demo_conv = \<lparr>shape = [1, 2, 2, 2], elems = [1, -2, 3, 4, -5, 6, 7, 8]\<rparr>"

definition demo_preds :: "real tensor" where
  "demo_preds = \<lparr>shape = [1, 3], elems = [1, 5, 5]\<rparr>"

definition const_grads :: "real \<Rightarrow> real tensor" where
  "const_grads v = \<lparr>shape = [1, 2, 2, 2], elems = replicate 8 v\<rparr>"

text \<open>
  Two starting worlds with nothing drawn and no files: one with the directory of the
  saved figure, one without it.
\<close>

definition fresh_world :: world where
  "fresh_world = \<lparr>axes_images = [], dirs = {''data'', ''data/save_fig''}, files = Map.empty\<rparr>"

definition bare_world :: world where
  "bare_world = \<lparr>axes_images = [], dirs = {''data''}, files = Map.empty\<rparr>"

section \<open>Lemmas on the tensor operations\<close>

lemma fl_sum_Fin: "fl_sum (map (\<lambda>x. Fin (f x)) xs) = Fin (sum_list (map f xs))"
  unfolding fl_sum_def by (induction xs) simp_all

lemma dot_Fin:
  "dot (map Fin xs) (map Fin ys) = Fin (sum_list (map2 (*) xs ys))"
proof -
  have "map2 fl_mul (map Fin xs) (map Fin ys) = map (\<lambda>p. Fin (fst p * snd p)) (zip xs ys)"
    by (simp add: zip_map_map split_def)
  then show ?thesis
    unfolding dot_def by (simp add: fl_sum_Fin split_def)
qed

lemma foldr_maximum_Fin:
  "foldr fl_maximum (map Fin xs) NInf = (if xs = [] then NInf else Fin (Max (set xs)))"
proof (induction xs)
  case Nil
  then show ?case by simp
next
  case (Cons x xs)
  then show ?case by (cases "xs = []") simp_all
qed

lemma reduce_max_Fin:
  "elems t = map Fin xs \<Longrightarrow> reduce_max t = (if xs = [] then NInf else Fin (Max (set xs)))"
  unfolding reduce_max_def by (simp only: foldr_maximum_Fin)

lemma elems_normalize_Fin:
  "elems hm = map Fin xs \<Longrightarrow>
   elems (normalize_heatmap hm) = map (\<lambda>x. fl_div (Fin (max x 0)) (reduce_max hm)) xs"
  unfolding normalize_heatmap_def divide_by_def maximum_def by simp

lemma shape_normalize: "shape (normalize_heatmap hm) = shape hm"
  unfolding normalize_heatmap_def divide_by_def maximum_def by simp

lemma sum_list_upt_group:
  "sum_list (map f [0..<a * b]) = sum_list (map (\<lambda>i. sum_list (map (\<lambda>j. f (i * b + j)) [0..<b])) [0..<a])"
proof (induction a)
  case 0
  then show ?case by simp
next
  case (Suc a)
  have split: "[0..<a * b + b] = [0..<a * b] @ [a * b..<a * b + b]"
    by (rule upt_add_eq_append) simp
  have "map (\<lambda>j. j + a * b) [0..<b] = [a * b..<b + a * b]"
    by (rule map_add_upt)
  then have shift: "[a * b..<a * b + b] = map (\<lambda>j. a * b + j) [0..<b]"
    by (simp only: add.commute [of _ "a * b"])
  have "sum_list (map f [0..<Suc a * b]) = sum_list (map f [0..<a * b + b])"
    by (simp only: mult_Suc add.commute)
  also have "\<dots> = sum_list (map f [0..<a * b]) + sum_list (map f (map (\<lambda>j. a * b + j) [0..<b]))"
    by (simp only: split shift map_append sum_list_append)
  also have "\<dots> = sum_list (map (\<lambda>i. sum_list (map (\<lambda>j. f (i * b + j)) [0..<b])) [0..<a])
                    + sum_list (map (\<lambda>j. f (a * b + j)) [0..<b])"
    by (simp only: Suc.IH map_map o_def)
  finally show ?case by simp
qed

lemma offset_bound: "q < n \<Longrightarrow> k < c \<Longrightarrow> q * c + k < n * (c::nat)"
proof -
  assume q: "q < n" and k: "k < c"
  have "q * c + k < Suc q * c" using k by simp
  also have "\<dots> \<le> n * c" using q by (intro mult_le_mono1) simp
  finally show ?thesis .
qed

lemma reduce_mean_lift:
  assumes sh: "shape g = [b, h, w, c]" and wf: "wf_tensor g"
  shows "reduce_mean_012 (lift g) =
           Inr \<lparr>shape = [c],
                elems = map (\<lambda>k. fl_div (Fin (\<Sum>q\<leftarrow>[0..<b * h * w]. elems g ! (q * c + k)))
                                         (Fin (real (b * h * w)))) [0..<c]\<rparr>"
proof -
  have len: "length (elems g) = b * h * w * c"
    using sh wf by (simp add: wf_tensor_def)
  have inner: "fl_sum (map (\<lambda>q. map Fin (elems g) ! (q * c + k)) [0..<b * h * w])
                 = Fin (\<Sum>q\<leftarrow>[0..<b * h * w]. elems g ! (q * c + k))" if k: "k < c" for k
  proof -
    have "map (\<lambda>q. map Fin (elems g) ! (q * c + k)) [0..<b * h * w]
            = map (\<lambda>q. Fin (elems g ! (q * c + k))) [0..<b * h * w]"
    proof (rule map_cong [OF refl])
      fix q assume "q \<in> set [0..<b * h * w]"
      then have "q * c + k < length (elems g)"
        using offset_bound [of q "b * h * w" k c] k len by simp
      then show "map Fin (elems g) ! (q * c + k) = Fin (elems g ! (q * c + k))"
        by (rule nth_map)
    qed
    then show ?thesis by (simp only: fl_sum_Fin)
  qed
  have "map (\<lambda>r. fl_div (fl_sum (map (\<lambda>q. map Fin (elems g) ! (q * c + r)) [0..<b * h * w]))
                        (Fin (real (b * h * w)))) [0..<c]
          = map (\<lambda>k. fl_div (Fin (\<Sum>q\<leftarrow>[0..<b * h * w]. elems g ! (q * c + k)))
                            (Fin (real (b * h * w)))) [0..<c]"
    by (rule map_cong [OF refl]) (simp add: inner)
  then show ?thesis
    unfolding reduce_mean_012_def lift_def using sh by (simp add: Let_def)
qed

lemma concat_singletons: "concat (map (\<lambda>r. [f r]) xs) = map f xs"
  by (induction xs) simp_all

lemma matmul_column:
  assumes "shape a = [h, w, c]" and "shape p = [c]" and "length (elems p) = c"
  shows "matmul a (newaxis_last p) =
           Inr \<lparr>shape = [h, w, 1],
                elems = map (\<lambda>r. dot (take c (drop (r * c) (elems a))) (elems p)) [0..<h * w]\<rparr>"
proof -
  have col: "map (\<lambda>i. elems p ! i) [0..<c] = elems p"
    using assms(3) map_nth [of "elems p"] by simp
  show ?thesis
    unfolding matmul_def newaxis_last_def using assms(1,2)
    by (simp add: col concat_singletons)
qed

lemma row_lift:
  assumes "r < m" and "m * c \<le> length xs"
  shows "take c (drop (r * c) (take (m * c) (map Fin xs))) = map Fin (take c (drop (r * c) xs))"
proof -
  have "Suc r * c \<le> m * c" using assms(1) by (intro mult_le_mono1) simp
  then have "c \<le> m * c - r * c" by simp
  then have "min c (m * c - r * c) = c" by simp
  then show ?thesis
    by (simp add: drop_take take_map drop_map)
qed

lemma row_nth:
  assumes "r < m" and "m * c \<le> length xs" and "k < c"
  shows "take c (drop (r * c) xs) ! k = xs ! (r * c + k)"
proof -
  have lt: "r * c + k < m * c" using assms(1,3) by (rule offset_bound)
  show ?thesis using assms(2,3) lt by simp
qed

lemma row_length:
  assumes "r < m" and "m * c \<le> length xs"
  shows "length (take c (drop (r * c) xs)) = c"
proof -
  have le: "Suc r * c \<le> m * c" using assms(1) by (intro mult_le_mono1) simp
  show ?thesis using le assms(2) by simp
qed

lemma map2_mult_upt:
  assumes "length row = c"
  shows "map2 (*) row (map f [0..<c]) = map (\<lambda>k. row ! k * f k) [0..<c]"
  using assms by (intro nth_equalityI) simp_all

lemma dot_row:
  assumes r: "r < m" and len: "m * c \<le> length xs"
  shows "dot (map Fin (take c (drop (r * c) xs))) (map Fin (map f [0..<c]))
           = Fin (\<Sum>k\<leftarrow>[0..<c]. xs ! (r * c + k) * f k)"
proof -
  let ?row = "take c (drop (r * c) xs)"
  have "map2 (*) ?row (map f [0..<c]) = map (\<lambda>k. ?row ! k * f k) [0..<c]"
    using row_length [OF r len] by (rule map2_mult_upt)
  also have "\<dots> = map (\<lambda>k. xs ! (r * c + k) * f k) [0..<c]"
  proof (rule map_cong [OF refl])
    fix k assume "k \<in> set [0..<c]"
    then have "k < c" by simp
    then show "?row ! k * f k = xs ! (r * c + k) * f k"
      by (simp only: row_nth [OF r len])
  qed
  finally show ?thesis by (simp only: dot_Fin)
qed

lemma class_activation_lift:
  assumes shc: "shape conv = [b, h, w, c]" and wfc: "wf_tensor conv" and b: "0 < b"
      and shg: "shape g = [b, h, w, c]" and wfg: "wf_tensor g"
  shows "class_activation (lift conv) (lift g) =
           Inr \<lparr>shape = filter (\<lambda>d. d \<noteq> 1) [h, w],
                elems = map (\<lambda>r. Fin (\<Sum>k\<leftarrow>[0..<c]. elems conv ! (r * c + k)
                                                    * channel_mean (b * h * w) c (elems g) k))
                            [0..<h * w]\<rparr>"
proof -
  let ?n = "b * h * w"
  define p where
    "p = \<lparr>shape = [c],
          elems = map (\<lambda>k. fl_div (Fin (\<Sum>q\<leftarrow>[0..<?n]. elems g ! (q * c + k))) (Fin (real ?n)))
                      [0..<c]\<rparr>"
  define a0 where
    "a0 = \<lparr>shape = [h, w, c], elems = take (h * w * c) (map Fin (elems conv))\<rparr>"
  have lenc: "length (elems conv) = b * (h * w * c)"
    using shc wfc by (simp add: wf_tensor_def)
  have "h * w * c \<le> b * (h * w * c)" using b by simp
  then have le: "(h * w) * c \<le> length (elems conv)" using lenc by simp
  have pooled: "pooled_grads (lift g) = Inr p"
    unfolding pooled_grads_def p_def by (rule reduce_mean_lift [OF shg wfg])
  have idx: "index0 (lift conv) = Inr a0"
    unfolding index0_def lift_def a0_def using shc b by (simp add: mult.assoc)
  have mm: "matmul a0 (newaxis_last p)
            = Inr \<lparr>shape = [h, w, 1],
                   elems = map (\<lambda>r. dot (take c (drop (r * c) (elems a0))) (elems p))
                               [0..<h * w]\<rparr>"
    by (rule matmul_column) (simp_all add: a0_def p_def)
  have entries: "map (\<lambda>r. dot (take c (drop (r * c) (elems a0))) (elems p)) [0..<h * w]
                 = map (\<lambda>r. Fin (\<Sum>k\<leftarrow>[0..<c]. elems conv ! (r * c + k)
                                                  * channel_mean ?n c (elems g) k)) [0..<h * w]"
  proof (rule map_cong [OF refl])
    fix r assume "r \<in> set [0..<h * w]"
    then have r: "r < h * w" by simp
    then have "0 < h * w" by (cases "h * w") simp_all
    then have n: "real ?n \<noteq> 0" using b by simp
    have pe: "elems p = map Fin (map (channel_mean ?n c (elems g)) [0..<c])"
      unfolding p_def using n by (simp add: channel_mean_def)
    have "take c (drop (r * c) (elems a0)) = map Fin (take c (drop (r * c) (elems conv)))"
      unfolding a0_def using row_lift [OF r le] by simp
    then show "dot (take c (drop (r * c) (elems a0))) (elems p)
                 = Fin (\<Sum>k\<leftarrow>[0..<c]. elems conv ! (r * c + k) * channel_mean ?n c (elems g) k)"
      by (simp only: pe dot_row [OF r le])
  qed
  have sq: "filter (\<lambda>d. d \<noteq> 1) [h, w, 1::nat] = filter (\<lambda>d. d \<noteq> 1) [h, w]"
    by simp
  show ?thesis
    unfolding class_activation_def
    by (simp only: pooled idx mm entries sum.case squeeze_def tensor.simps sq)
qed

section \<open>Lemmas on the heatmap generator\<close>

lemma raw_heatmap_run:
  assumes "valid_run model img name conv grads idx b h w c"
  shows "raw_heatmap img model name =
           Inr \<lparr>shape = filter (\<lambda>d. d \<noteq> 1) [h, w],
                elems = map (\<lambda>r. Fin (\<Sum>k\<leftarrow>[0..<c]. elems conv ! (r * c + k)
                                                    * channel_mean (b * h * w) c (elems grads) k))
                            [0..<h * w]\<rparr>"
proof -
  obtain layer where layer: "layer_output model name = Some layer"
    using assms unfolding valid_run_def by blast
  have conv: "layer img = lift conv" and grads: "gradient model name img idx = lift grads"
    and idx: "pred_index_of (model_output model img) = Inr idx"
    using assms layer unfolding valid_run_def by simp_all
  have "raw_heatmap img model name = class_activation (lift conv) (lift grads)"
    unfolding raw_heatmap_def by (simp add: layer idx conv grads)
  also have "\<dots> = Inr \<lparr>shape = filter (\<lambda>d. d \<noteq> 1) [h, w],
                elems = map (\<lambda>r. Fin (\<Sum>k\<leftarrow>[0..<c]. elems conv ! (r * c + k)
                                                    * channel_mean (b * h * w) c (elems grads) k))
                            [0..<h * w]\<rparr>"
    using assms unfolding valid_run_def by (intro class_activation_lift) blast+
  finally show ?thesis .
qed

lemma normalize_unit_interval:
  assumes fin: "elems hm = map Fin xs" and nz: "reduce_max hm \<noteq> Fin 0"
  shows "\<forall>e\<in>set (elems (normalize_heatmap hm)). \<exists>x. e = Fin x \<and> 0 \<le> x \<and> x \<le> 1"
proof (cases "xs = []")
  case True
  then show ?thesis using fin by (simp add: elems_normalize_Fin)
next
  case False
  let ?M = "Max (set xs)"
  have M: "reduce_max hm = Fin ?M" using fin False by (simp add: reduce_max_Fin)
  then have M0: "?M \<noteq> 0" using nz by simp
  have each: "\<exists>y. fl_div (Fin (max x 0)) (Fin ?M) = Fin y \<and> 0 \<le> y \<and> y \<le> 1" if x: "x \<in> set xs" for x
  proof -
    have le: "x \<le> ?M" using x by simp
    show ?thesis
    proof (cases "0 < ?M")
      case True
      then have "0 \<le> max x 0 / ?M" and "max x 0 / ?M \<le> 1" using le by simp_all
      then show ?thesis using M0 by simp
    next
      case False
      then have "?M < 0" using M0 by simp
      then have "max x 0 = 0" using le by simp
      then show ?thesis using M0 by simp
    qed
  qed
  show ?thesis
  proof
    fix e assume "e \<in> set (elems (normalize_heatmap hm))"
    then have "e \<in> (\<lambda>x. fl_div (Fin (max x 0)) (Fin ?M)) ` set xs"
      by (simp only: elems_normalize_Fin [OF fin] M set_map)
    then obtain x where "x \<in> set xs" and "e = fl_div (Fin (max x 0)) (Fin ?M)"
      by blast
    with each show "\<exists>y. e = Fin y \<and> 0 \<le> y \<and> y \<le> 1" by blast
  qed
qed

section \<open>Properties of the heatmap generator\<close>

text \<open>
  Claim C1, as amended. When the raw heatmap holds only finite values and its maximum
  is not zero, \<open>make_heatmap\<close> returns and every value of the normalized heatmap is a
  finite number between 0 and 1.
\<close>

theorem make_heatmap_unit_interval:
  assumes raw: "raw_heatmap img model name = Inr raw"
      and fin: "elems raw = map Fin xs"
      and nz: "reduce_max raw \<noteq> Fin 0"
  shows "\<exists>r. make_heatmap img model name = Inr r
             \<and> (\<forall>e\<in>set (elems r). \<exists>x. e = Fin x \<and> 0 \<le> x \<and> x \<le> 1)"
proof -
  have "make_heatmap img model name = Inr (normalize_heatmap raw)"
    unfolding make_heatmap_def by (simp add: raw)
  then show ?thesis
    using normalize_unit_interval [OF fin nz] by simp
qed

theorem make_heatmap_unit_interval_witness:
  "raw_heatmap demo_img (model_of demo_conv demo_preds (\<lambda>_. const_grads 1)) ''conv_last''
     = Inr \<lparr>shape = [2, 2], elems = [Fin (-1), Fin 7, Fin 1, Fin 15]\<rparr>
   \<and> elems \<lparr>shape = [2, 2], elems = [Fin (-1), Fin 7, Fin 1, Fin 15]\<rparr> = map Fin [-1, 7, 1, 15]
   \<and> reduce_max \<lparr>shape = [2, 2], elems = [Fin (-1), Fin 7, Fin 1, Fin 15]\<rparr> \<noteq> Fin 0
   \<and> (\<exists>r. make_heatmap demo_img (model_of demo_conv demo_preds (\<lambda>_. const_grads 1))
               ''conv_last'' = Inr r
          \<and> (\<forall>e\<in>set (elems r). \<exists>x. e = Fin x \<and> 0 \<le> x \<and> x \<le> 1))"
proof -
  let ?m = "model_of demo_conv demo_preds (\<lambda>_. const_grads 1)"
  let ?raw = "\<lparr>shape = [2, 2], elems = [Fin (-1), Fin 7, Fin 1, Fin 15]\<rparr>"
  have raw: "raw_heatmap demo_img ?m ''conv_last'' = Inr ?raw"
    by code_simp
  have fin: "elems ?raw = map Fin [-1, 7, 1, 15]" by simp
  have nz: "reduce_max ?raw \<noteq> Fin 0"
    by code_simp
  show ?thesis
    using raw fin nz make_heatmap_unit_interval [OF raw fin nz] by simp
qed

text \<open>
  Claim C1 as stated, with the non-zero maximum as its only condition, fails when the
  raw heatmap holds an infinity: the maximum is then infinite, so not zero, and the
  division of line 54 gives \<open>inf / inf\<close>, not-a-number, at that position. Here the
  layer's activation is \<open>[inf, 1]\<close> with gradient \<open>[1, 1]\<close>; a product of finite values
  that overflows at line 50 leaves the same raw heatmap.
\<close>

theorem make_heatmap_unit_interval_counterexample:
  "raw_heatmap \<lparr>shape = [1, 1, 2, 1], elems = [0, 0]\<rparr>
      (model_with \<lparr>shape = [1, 1, 2, 1], elems = [PInf, Fin 1]\<rparr> demo_preds
                  (\<lambda>_. \<lparr>shape = [1, 1, 2, 1], elems = [Fin 1, Fin 1]\<rparr>)) ''conv_last''
     = Inr \<lparr>shape = [2], elems = [PInf, Fin 1]\<rparr>
   \<and> reduce_max \<lparr>shape = [2], elems = [PInf, Fin 1]\<rparr> = PInf
   \<and> PInf \<noteq> Fin 0
   \<and> make_heatmap \<lparr>shape = [1, 1, 2, 1], elems = [0, 0]\<rparr>
      (model_with \<lparr>shape = [1, 1, 2, 1], elems = [PInf, Fin 1]\<rparr> demo_preds
                  (\<lambda>_. \<lparr>shape = [1, 1, 2, 1], elems = [Fin 1, Fin 1]\<rparr>)) ''conv_last''
     = Inr \<lparr>shape = [2], elems = [NaN, Fin 0]\<rparr>
   \<and> \<not> list_all in_unit_interval [NaN, Fin 0]"
  by code_simp

lemma Max_clamp:
  assumes "xs \<noteq> []"
  shows "Max (set (map (\<lambda>x. max x (0::real)) xs)) = max (Max (set xs)) 0"
proof -
  have "mono (\<lambda>x. max x (0::real))" by (rule monoI) simp
  then have "max (Max (set xs)) 0 = Max ((\<lambda>x. max x 0) ` set xs)"
    using assms by (intro mono_Max_commute) simp_all
  then show ?thesis by simp
qed

text \<open>
  Claim C2, as amended. The normalized heatmap is the raw heatmap with negative values
  clamped to zero, divided elementwise by the global maximum of the raw heatmap, not of
  the clamped one. The two divisors, and so the two results, agree whenever some raw
  value is not negative.
\<close>

theorem normalize_divides_by_raw_maximum:
  assumes fin: "elems hm = map Fin xs"
  shows "elems (normalize_heatmap hm) = map (\<lambda>x. fl_div (Fin (max x 0)) (reduce_max hm)) xs
         \<and> shape (normalize_heatmap hm) = shape hm
         \<and> reduce_max hm = (if xs = [] then NInf else Fin (Max (set xs)))
         \<and> ((\<exists>x\<in>set xs. 0 \<le> x) \<longrightarrow> normalize_heatmap hm = normalize_spec hm)"
proof -
  have agree: "normalize_heatmap hm = normalize_spec hm" if ex: "\<exists>x\<in>set xs. 0 \<le> x"
  proof -
    from ex have ne: "xs \<noteq> []" by auto
    from ex obtain x where x: "x \<in> set xs" "0 \<le> x" by blast
    then have "x \<le> Max (set xs)" by simp
    with x have M: "0 \<le> Max (set xs)" by linarith
    have cl: "elems (maximum hm (Fin 0)) = map Fin (map (\<lambda>x. max x 0) xs)"
      unfolding maximum_def by (simp add: fin)
    have "reduce_max (maximum hm (Fin 0)) = Fin (Max (set (map (\<lambda>x. max x 0) xs)))"
      using reduce_max_Fin [OF cl] ne by simp
    also have "\<dots> = Fin (Max (set xs))"
      using M by (simp only: Max_clamp [OF ne]) simp
    also have "\<dots> = reduce_max hm"
      using reduce_max_Fin [OF fin] ne by simp
    finally show ?thesis
      unfolding normalize_heatmap_def normalize_spec_def by (simp add: Let_def)
  qed
  show ?thesis
    using agree reduce_max_Fin [OF fin] elems_normalize_Fin [OF fin] shape_normalize
    by blast
qed

theorem normalize_divides_by_raw_maximum_witness:
  "elems \<lparr>shape = [2, 2], elems = [Fin (-1), Fin 7, Fin 1, Fin 15]\<rparr> = map Fin [-1, 7, 1, 15]
   \<and> (\<exists>x\<in>set [-1, 7, 1, 15 :: real]. 0 \<le> x)
   \<and> normalize_heatmap \<lparr>shape = [2, 2], elems = [Fin (-1), Fin 7, Fin 1, Fin 15]\<rparr>
       = normalize_spec \<lparr>shape = [2, 2], elems = [Fin (-1), Fin 7, Fin 1, Fin 15]\<rparr>
   \<and> elems (normalize_heatmap \<lparr>shape = [2, 2], elems = [Fin (-1), Fin 7, Fin 1, Fin 15]\<rparr>)
       = [Fin 0, Fin (7 / 15), Fin (1 / 15), Fin 1]"
proof -
  let ?hm = "\<lparr>shape = [2, 2], elems = [Fin (-1), Fin 7, Fin 1, Fin 15]\<rparr>"
  have fin: "elems ?hm = map Fin [-1, 7, 1, 15]" by simp
  have ex: "\<exists>x\<in>set [-1, 7, 1, 15 :: real]. 0 \<le> x" by simp
  have val: "elems (normalize_heatmap ?hm) = [Fin 0, Fin (7 / 15), Fin (1 / 15), Fin 1]"
    by code_simp
  show ?thesis
    using fin ex val normalize_divides_by_raw_maximum [OF fin] by blast
qed

text \<open>
  Claim C2 as stated fails on a raw heatmap whose values are all negative: the code
  divides the clamped zeros by the negative raw maximum and gives zeros, where dividing
  by the maximum of the clamped array would give \<open>0 / 0\<close>.
\<close>

theorem normalize_spec_counterexample:
  "normalize_heatmap \<lparr>shape = [2], elems = [Fin (-1), Fin (-2)]\<rparr>
     = \<lparr>shape = [2], elems = [Fin 0, Fin 0]\<rparr>
   \<and> normalize_spec \<lparr>shape = [2], elems = [Fin (-1), Fin (-2)]\<rparr>
     = \<lparr>shape = [2], elems = [NaN, NaN]\<rparr>
   \<and> normalize_heatmap \<lparr>shape = [2], elems = [Fin (-1), Fin (-2)]\<rparr>
     \<noteq> normalize_spec \<lparr>shape = [2], elems = [Fin (-1), Fin (-2)]\<rparr>"
  by code_simp

text \<open>
  Claim C10. When every value of the raw heatmap is strictly negative, the divisor of the
  normalization is the negative maximum of the unclamped raw heatmap, the clamped
  numerator is zero everywhere, and \<open>make_heatmap\<close> returns an all-zero heatmap, not
  \<open>NaN\<close>.
\<close>

theorem make_heatmap_all_negative:
  assumes raw: "raw_heatmap img model name = Inr raw"
      and fin: "elems raw = map Fin xs"
      and ne: "xs \<noteq> []"
      and neg: "\<forall>x\<in>set xs. x < 0"
  shows "(\<exists>d. reduce_max raw = Fin d \<and> d < 0)
         \<and> elems (maximum raw (Fin 0)) = replicate (length xs) (Fin 0)
         \<and> make_heatmap img model name
             = Inr \<lparr>shape = shape raw, elems = replicate (length xs) (Fin 0)\<rparr>"
proof -
  let ?M = "Max (set xs)"
  have M: "reduce_max raw = Fin ?M" using reduce_max_Fin [OF fin] ne by simp
  have "?M \<in> set xs" using ne by (intro Max_in) simp_all
  then have Mneg: "?M < 0" using neg by blast
  have cl: "map (\<lambda>x. Fin (max x 0)) xs = map (\<lambda>x. Fin 0) xs"
    by (rule map_cong [OF refl]) (use neg in auto)
  have clamped: "elems (maximum raw (Fin 0)) = replicate (length xs) (Fin 0)"
    unfolding maximum_def using cl by (simp add: fin o_def map_replicate_const)
  have "map (\<lambda>x. fl_div (Fin (max x 0)) (Fin ?M)) xs = map (\<lambda>x. Fin 0) xs"
    by (rule map_cong [OF refl]) (use neg Mneg in auto)
  then have "elems (normalize_heatmap raw) = replicate (length xs) (Fin 0)"
    by (simp add: elems_normalize_Fin [OF fin] M map_replicate_const)
  moreover have "shape (normalize_heatmap raw) = shape raw" by (rule shape_normalize)
  ultimately have "normalize_heatmap raw = \<lparr>shape = shape raw, elems = replicate (length xs) (Fin 0)\<rparr>"
    by simp
  then have "make_heatmap img model name
               = Inr \<lparr>shape = shape raw, elems = replicate (length xs) (Fin 0)\<rparr>"
    unfolding make_heatmap_def by (simp add: raw)
  with M Mneg clamped show ?thesis by blast
qed

theorem make_heatmap_all_negative_witness:
  "raw_heatmap \<lparr>shape = [1, 1, 2, 1], elems = [0, 0]\<rparr>
      (model_of \<lparr>shape = [1, 1, 2, 1], elems = [1, 2]\<rparr> \<lparr>shape = [1, 2], elems = [3, 4]\<rparr>
                (\<lambda>i. \<lparr>shape = [1, 1, 2, 1], elems = [-1, -1]\<rparr>)) ''conv_last''
     = Inr \<lparr>shape = [2], elems = [Fin (-1), Fin (-2)]\<rparr>
   \<and> list_all (\<lambda>x. x < 0) [-1, -2 :: real]
   \<and> make_heatmap \<lparr>shape = [1, 1, 2, 1], elems = [0, 0]\<rparr>
      (model_of \<lparr>shape = [1, 1, 2, 1], elems = [1, 2]\<rparr> \<lparr>shape = [1, 2], elems = [3, 4]\<rparr>
                (\<lambda>i. \<lparr>shape = [1, 1, 2, 1], elems = [-1, -1]\<rparr>)) ''conv_last''
     = Inr \<lparr>shape = [2], elems = [Fin 0, Fin 0]\<rparr>"
proof -
  let ?img = "\<lparr>shape = [1, 1, 2, 1], elems = [0, 0 :: real]\<rparr>"
  let ?m = "model_of \<lparr>shape = [1, 1, 2, 1], elems = [1, 2]\<rparr> \<lparr>shape = [1, 2], elems = [3, 4]\<rparr>
                (\<lambda>i. \<lparr>shape = [1, 1, 2, 1], elems = [-1, -1]\<rparr>)"
  let ?raw = "\<lparr>shape = [2], elems = [Fin (-1), Fin (-2)]\<rparr>"
  have raw: "raw_heatmap ?img ?m ''conv_last'' = Inr ?raw" by code_simp
  have fin: "elems ?raw = map Fin [-1, -2]" by simp
  have ne: "[-1, -2 :: real] \<noteq> []" by simp
  have neg: "\<forall>x\<in>set [-1, -2 :: real]. x < 0" by simp
  have la: "list_all (\<lambda>x. x < 0) [-1, -2 :: real]" by simp
  show ?thesis
    using raw la make_heatmap_all_negative [OF raw fin ne neg] by simp
qed

lemma channel_sum_positions:
  "(\<Sum>q\<leftarrow>[0..<b * h * w]. g ! (q * c + k))
     = (\<Sum>n\<leftarrow>[0..<b]. \<Sum>i\<leftarrow>[0..<h]. \<Sum>j\<leftarrow>[0..<w]. g ! offset4 h w c n i j k)"
proof -
  have "(\<Sum>q\<leftarrow>[0..<(b * h) * w]. g ! (q * c + k))
          = (\<Sum>m\<leftarrow>[0..<b * h]. \<Sum>j\<leftarrow>[0..<w]. g ! ((m * w + j) * c + k))"
    by (rule sum_list_upt_group)
  also have "\<dots> = (\<Sum>n\<leftarrow>[0..<b]. \<Sum>i\<leftarrow>[0..<h]. \<Sum>j\<leftarrow>[0..<w]. g ! (((n * h + i) * w + j) * c + k))"
    by (rule sum_list_upt_group)
  finally show ?thesis unfolding offset4_def .
qed

text \<open>
  Claim C5. For every gradient tensor of shape \<open>[b, h, w, c]\<close> the pooled importance
  vector is computed without error, has one entry per channel, and its entry for
  channel \<open>k\<close> is the mean of the gradient over the batch axis and both spatial axes.
\<close>

theorem pooled_grads_is_mean:
  assumes sh: "shape g = [b, h, w, c]" and wf: "wf_tensor g"
  shows "\<exists>p. pooled_grads (lift g) = Inr p \<and> shape p = [c] \<and> length (elems p) = c
             \<and> elems p = map (mean_over_batch_and_space b h w c (elems g)) [0..<c]"
proof -
  have "pooled_grads (lift g) =
          Inr \<lparr>shape = [c],
               elems = map (\<lambda>k. fl_div (Fin (\<Sum>q\<leftarrow>[0..<b * h * w]. elems g ! (q * c + k)))
                                        (Fin (real (b * h * w)))) [0..<c]\<rparr>"
    unfolding pooled_grads_def by (rule reduce_mean_lift [OF sh wf])
  then show ?thesis
    by (simp add: channel_sum_positions mean_over_batch_and_space_def)
qed

theorem pooled_grads_is_mean_witness:
  "shape \<lparr>shape = [1, 2, 2, 2], elems = [1, 2, 3, 4, 5, 6, 7, 12 :: real]\<rparr> = [1, 2, 2, 2]
   \<and> wf_tensor \<lparr>shape = [1, 2, 2, 2], elems = [1, 2, 3, 4, 5, 6, 7, 12 :: real]\<rparr>
   \<and> pooled_grads (lift \<lparr>shape = [1, 2, 2, 2], elems = [1, 2, 3, 4, 5, 6, 7, 12]\<rparr>)
       = Inr \<lparr>shape = [2], elems = [Fin 4, Fin 6]\<rparr>
   \<and> map (mean_over_batch_and_space 1 2 2 2 [1, 2, 3, 4, 5, 6, 7, 12]) [0..<2] = [Fin 4, Fin 6]"
proof -
  let ?g = "\<lparr>shape = [1, 2, 2, 2], elems = [1, 2, 3, 4, 5, 6, 7, 12 :: real]\<rparr>"
  have sh: "shape ?g = [1, 2, 2, 2]" by simp
  have wf: "wf_tensor ?g" by code_simp
  have val: "pooled_grads (lift ?g) = Inr \<lparr>shape = [2], elems = [Fin 4, Fin 6]\<rparr>" by code_simp
  show ?thesis
    using sh wf val pooled_grads_is_mean [OF sh wf] by auto
qed

lemma pooled_grads_run:
  assumes sh: "shape g = [b, h, w, c]" and wf: "wf_tensor g" and n: "0 < b * h * w"
  shows "pooled_grads (lift g)
           = Inr \<lparr>shape = [c], elems = map (\<lambda>k. Fin (channel_mean (b * h * w) c (elems g) k)) [0..<c]\<rparr>"
proof -
  have "real (b * h * w) \<noteq> 0" using n by simp
  then show ?thesis
    unfolding pooled_grads_def reduce_mean_lift [OF sh wf] channel_mean_def by simp
qed

lemma argmax_from_first_max:
  assumes "bi < length ys" and "ys ! bi = bv"
      and "\<forall>j<length ys. ys ! j \<le> bv" and "\<forall>j<bi. ys ! j < bv"
  shows "argmax_from bi bv (length ys) xs < length (ys @ xs)
         \<and> (\<forall>j<length (ys @ xs). (ys @ xs) ! j \<le> (ys @ xs) ! argmax_from bi bv (length ys) xs)
         \<and> (\<forall>j<argmax_from bi bv (length ys) xs.
               (ys @ xs) ! j < (ys @ xs) ! argmax_from bi bv (length ys) xs)"
  using assms
proof (induction xs arbitrary: ys bi bv)
  case Nil
  then show ?case by simp
next
  case (Cons x xs)
  show ?case
  proof (cases "bv < x")
    case True
    have a: "length ys < length (ys @ [x])" by simp
    have b: "(ys @ [x]) ! length ys = x" by simp
    have c: "\<forall>j<length (ys @ [x]). (ys @ [x]) ! j \<le> x"
      using Cons.prems(3) True by (auto simp: nth_append less_Suc_eq intro: less_imp_le order_le_less_trans)
    have d: "\<forall>j<length ys. (ys @ [x]) ! j < x"
      using Cons.prems(3) True by (auto simp: nth_append intro: order_le_less_trans)
    from Cons.IH [OF a b c d] True show ?thesis by simp
  next
    case False
    have a: "bi < length (ys @ [x])" using Cons.prems(1) by simp
    have b: "(ys @ [x]) ! bi = bv" using Cons.prems(1,2) by (simp add: nth_append)
    have c: "\<forall>j<length (ys @ [x]). (ys @ [x]) ! j \<le> bv"
      using Cons.prems(3) False by (auto simp: nth_append less_Suc_eq)
    have d: "\<forall>j<bi. (ys @ [x]) ! j < bv"
      using Cons.prems(1,4) by (auto simp: nth_append)
    from Cons.IH [OF a b c d] False show ?thesis by simp
  qed
qed

lemma argmax_first_max:
  assumes "xs \<noteq> []"
  shows "\<exists>i. argmax xs = Inr i \<and> i < length xs \<and> (\<forall>j<length xs. xs ! j \<le> xs ! i)
             \<and> (\<forall>j<i. xs ! j < xs ! i)"
proof -
  obtain x ys where xs: "xs = x # ys" using assms by (cases xs) auto
  have "argmax_from 0 x (length [x]) ys < length ([x] @ ys)
         \<and> (\<forall>j<length ([x] @ ys). ([x] @ ys) ! j \<le> ([x] @ ys) ! argmax_from 0 x (length [x]) ys)
         \<and> (\<forall>j<argmax_from 0 x (length [x]) ys.
               ([x] @ ys) ! j < ([x] @ ys) ! argmax_from 0 x (length [x]) ys)"
    by (rule argmax_from_first_max) simp_all
  then show ?thesis unfolding xs argmax_def by simp
qed

text \<open>
  Claim C4. \<open>make_heatmap\<close> explains the top predicted class: the class index is a
  position of the maximum of the first batch element's predictions, the first one when
  several are equal, and the heatmap is computed from the gradient of that class. The
  arguments of \<open>make_heatmap\<close> are the input, the model and the layer name only, so the
  caller has no way to name another class.
\<close>

theorem make_heatmap_explains_top_class:
  assumes layer: "layer_output model name = Some layer"
      and sh: "shape (model_output model img) = [bp, n]"
      and wf: "wf_tensor (model_output model img)"
      and bp: "0 < bp" and n: "0 < n"
  shows "\<exists>i. pred_index_of (model_output model img) = Inr i \<and> i < n
             \<and> (\<forall>j<n. elems (model_output model img) ! j \<le> elems (model_output model img) ! i)
             \<and> (\<forall>j<i. elems (model_output model img) ! j < elems (model_output model img) ! i)
             \<and> make_heatmap img model name
                 = (case class_activation (layer img) (gradient model name img i) of
                      Inl e \<Rightarrow> Inl e
                    | Inr heatmap \<Rightarrow> Inr (normalize_heatmap heatmap))"
proof -
  let ?preds = "model_output model img"
  let ?row = "take n (elems ?preds)"
  have len: "length (elems ?preds) = bp * n" using sh wf by (simp add: wf_tensor_def)
  have "n \<le> bp * n" using bp by simp
  then have rl: "length ?row = n" using len by simp
  then have "?row \<noteq> []" using n by auto
  from argmax_first_max [OF this] rl obtain i where
    am: "argmax ?row = Inr i" and i: "i < n"
    and ge: "\<forall>j<n. ?row ! j \<le> ?row ! i" and first: "\<forall>j<i. ?row ! j < ?row ! i"
    by auto
  have pi: "pred_index_of ?preds = Inr i"
    unfolding pred_index_of_def index0_def using sh bp am by simp
  have ge': "\<forall>j<n. elems ?preds ! j \<le> elems ?preds ! i" using ge i by simp
  have first': "\<forall>j<i. elems ?preds ! j < elems ?preds ! i" using first i by simp
  have "make_heatmap img model name
          = (case class_activation (layer img) (gradient model name img i) of
               Inl e \<Rightarrow> Inl e
             | Inr heatmap \<Rightarrow> Inr (normalize_heatmap heatmap))"
    unfolding make_heatmap_def raw_heatmap_def by (simp add: layer pi)
  with pi i ge' first' show ?thesis by blast
qed

theorem make_heatmap_explains_top_class_witness:
  "layer_output (model_of \<lparr>shape = [1, 2, 2, 2], elems = [1, -2, 3, 4, -5, 6, 7, 8]\<rparr>
                          \<lparr>shape = [1, 3], elems = [1, 5, 5]\<rparr>
                          (\<lambda>i. \<lparr>shape = [1, 2, 2, 2], elems = replicate 8 (real i)\<rparr>)) ''conv_last''
     = Some (\<lambda>_. lift \<lparr>shape = [1, 2, 2, 2], elems = [1, -2, 3, 4, -5, 6, 7, 8]\<rparr>)
   \<and> pred_index_of \<lparr>shape = [1, 3], elems = [1, 5, 5]\<rparr> = Inr 1
   \<and> make_heatmap \<lparr>shape = [1, 2, 2, 1], elems = [0, 0, 0, 0]\<rparr>
        (model_of \<lparr>shape = [1, 2, 2, 2], elems = [1, -2, 3, 4, -5, 6, 7, 8]\<rparr>
                  \<lparr>shape = [1, 3], elems = [1, 5, 5]\<rparr>
                  (\<lambda>i. \<lparr>shape = [1, 2, 2, 2], elems = replicate 8 (real i)\<rparr>)) ''conv_last''
       = Inr \<lparr>shape = [2, 2], elems = [Fin 0, Fin (7 / 15), Fin (1 / 15), Fin 1]\<rparr>"
proof -
  let ?conv = "\<lparr>shape = [1, 2, 2, 2], elems = [1, -2, 3, 4, -5, 6, 7, 8 :: real]\<rparr>"
  let ?preds = "\<lparr>shape = [1, 3], elems = [1, 5, 5 :: real]\<rparr>"
  let ?m = "model_of ?conv ?preds (\<lambda>i. \<lparr>shape = [1, 2, 2, 2], elems = replicate 8 (real i)\<rparr>)"
  let ?img = "\<lparr>shape = [1, 2, 2, 1], elems = [0, 0, 0, 0 :: real]\<rparr>"
  have layer: "layer_output ?m ''conv_last'' = Some (\<lambda>_. lift ?conv)"
    by (simp add: model_of_def model_with_def)
  have sh: "shape (model_output ?m ?img) = [1, 3]" by (simp add: model_of_def model_with_def)
  have wf: "wf_tensor (model_output ?m ?img)"
    by (simp add: model_of_def model_with_def wf_tensor_def)
  have pi: "pred_index_of ?preds = Inr 1" by code_simp
  have mh: "make_heatmap ?img ?m ''conv_last''
              = Inr \<lparr>shape = [2, 2], elems = [Fin 0, Fin (7 / 15), Fin (1 / 15), Fin 1]\<rparr>"
    by code_simp
  have "0 < (1::nat)" and "0 < (3::nat)" by simp_all
  from make_heatmap_explains_top_class [OF layer sh wf this] layer pi mh
  show ?thesis by simp
qed

lemma valid_run_shapes:
  assumes "valid_run model img name conv grads idx b h w c"
  shows "shape conv = [b, h, w, c]" and "wf_tensor conv" and "0 < b"
    and "shape grads = [b, h, w, c]" and "wf_tensor grads"
  using assms unfolding valid_run_def by blast+

lemma make_heatmap_run:
  assumes "valid_run model img name conv grads idx b h w c"
  shows "\<exists>raw. raw_heatmap img model name = Inr raw
               \<and> make_heatmap img model name = Inr (normalize_heatmap raw)
               \<and> shape raw = filter (\<lambda>d. d \<noteq> 1) [h, w] \<and> length (elems raw) = h * w"
  unfolding make_heatmap_def raw_heatmap_run [OF assms] by simp

text \<open>
  Claim C6. At each spatial position \<open>(i, j)\<close> the raw heatmap is the sum over the
  channels of the first batch element's activation times the channel's pooled
  importance; when all pooled importances are one value \<open>v\<close>, it is \<open>v\<close> times the sum
  of the channel activations at that position.
\<close>

theorem raw_heatmap_weighted_sum:
  assumes run: "valid_run model img name conv grads idx b h w c"
      and i: "i < h" and j: "j < w"
  shows "\<exists>p raw. pooled_grads (lift grads) = Inr p \<and> raw_heatmap img model name = Inr raw
           \<and> length (elems p) = c \<and> length (elems raw) = h * w
           \<and> elems raw ! (i * w + j)
               = fl_sum (map (\<lambda>k. fl_mul (Fin (elems conv ! offset4 h w c 0 i j k)) (elems p ! k))
                             [0..<c])
           \<and> (\<forall>v. (\<forall>k<c. elems p ! k = Fin v) \<longrightarrow>
                  elems raw ! (i * w + j)
                    = Fin (v * (\<Sum>k\<leftarrow>[0..<c]. elems conv ! offset4 h w c 0 i j k)))"
proof -
  let ?n = "b * h * w"
  let ?cm = "channel_mean ?n c (elems grads)"
  let ?p = "\<lparr>shape = [c], elems = map (\<lambda>k. Fin (?cm k)) [0..<c]\<rparr>"
  let ?raw = "\<lparr>shape = filter (\<lambda>d. d \<noteq> 1) [h, w],
               elems = map (\<lambda>r. Fin (\<Sum>k\<leftarrow>[0..<c]. elems conv ! (r * c + k) * ?cm k)) [0..<h * w]\<rparr>"
  let ?a = "\<lambda>k. elems conv ! offset4 h w c 0 i j k"
  have r: "i * w + j < h * w" using i j by (rule offset_bound)
  have "0 < h * w" using r by (cases "h * w") simp_all
  then have n: "0 < ?n" using valid_run_shapes(3) [OF run] by simp
  have p: "pooled_grads (lift grads) = Inr ?p"
    using valid_run_shapes(4,5) [OF run] n by (rule pooled_grads_run)
  have raw: "raw_heatmap img model name = Inr ?raw" by (rule raw_heatmap_run [OF run])
  have off: "offset4 h w c 0 i j k = (i * w + j) * c + k" for k
    by (simp add: offset4_def)
  have entry: "elems ?raw ! (i * w + j) = Fin (\<Sum>k\<leftarrow>[0..<c]. ?a k * ?cm k)"
    using r by (simp add: off)
  have terms: "map (\<lambda>k. fl_mul (Fin (?a k)) (elems ?p ! k)) [0..<c]
                 = map (\<lambda>k. Fin (?a k * ?cm k)) [0..<c]"
    by (rule map_cong [OF refl]) simp
  have first: "elems ?raw ! (i * w + j)
                 = fl_sum (map (\<lambda>k. fl_mul (Fin (?a k)) (elems ?p ! k)) [0..<c])"
    by (simp only: entry terms fl_sum_Fin)
  have second: "elems ?raw ! (i * w + j) = Fin (v * (\<Sum>k\<leftarrow>[0..<c]. ?a k))"
    if v: "\<forall>k<c. elems ?p ! k = Fin v" for v
  proof -
    have "map (\<lambda>k. ?a k * ?cm k) [0..<c] = map (\<lambda>k. ?a k * v) [0..<c]"
    proof (rule map_cong [OF refl])
      fix k assume "k \<in> set [0..<c]"
      then have "k < c" by simp
      with v have "?cm k = v" by simp
      then show "?a k * ?cm k = ?a k * v" by simp
    qed
    then have s1: "(\<Sum>k\<leftarrow>[0..<c]. ?a k * ?cm k) = (\<Sum>k\<leftarrow>[0..<c]. ?a k * v)"
      by (rule arg_cong)
    have s2: "(\<Sum>k\<leftarrow>[0..<c]. ?a k * v) = (\<Sum>k\<leftarrow>[0..<c]. ?a k) * v"
      by (rule sum_list_mult_const)
    have s3: "(\<Sum>k\<leftarrow>[0..<c]. ?a k) * v = v * (\<Sum>k\<leftarrow>[0..<c]. ?a k)"
      by (rule mult.commute)
    show ?thesis by (simp only: entry s1 s2 s3)
  qed
  have lens: "length (elems ?p) = c" "length (elems ?raw) = h * w" by simp_all
  show ?thesis
    using p raw lens first second by blast
qed

theorem raw_heatmap_weighted_sum_witness:
  "valid_run (model_of demo_conv demo_preds (\<lambda>_. const_grads 1)) demo_img ''conv_last''
             demo_conv (const_grads 1) 1 1 2 2 2
   \<and> (0::nat) < 2 \<and> (1::nat) < 2
   \<and> (\<exists>raw. raw_heatmap demo_img (model_of demo_conv demo_preds (\<lambda>_. const_grads 1)) ''conv_last''
               = Inr raw
             \<and> elems raw ! (0 * 2 + 1) = Fin (1 * (3 + 4)))"
proof -
  let ?m = "model_of demo_conv demo_preds (\<lambda>_. const_grads 1)"
  have run: "valid_run ?m demo_img ''conv_last'' demo_conv (const_grads 1) 1 1 2 2 2"
    by code_simp
  have i: "(0::nat) < 2" and j: "(1::nat) < 2" by simp_all
  have pv: "pooled_grads (lift (const_grads 1)) = Inr \<lparr>shape = [2], elems = [Fin 1, Fin 1]\<rparr>"
    by code_simp
  have sv: "(\<Sum>k\<leftarrow>[0..<2]. elems demo_conv ! offset4 2 2 2 0 0 1 k) = 3 + 4"
    by code_simp
  from raw_heatmap_weighted_sum [OF run i j] obtain p raw where
    p: "pooled_grads (lift (const_grads 1)) = Inr p"
    and raw: "raw_heatmap demo_img ?m ''conv_last'' = Inr raw"
    and at_ij: "\<forall>v. (\<forall>k<2. elems p ! k = Fin v) \<longrightarrow>
                 elems raw ! (0 * 2 + 1)
                   = Fin (v * (\<Sum>k\<leftarrow>[0..<2]. elems demo_conv ! offset4 2 2 2 0 0 1 k))"
    by blast
  have "elems p = [Fin 1, Fin 1]" using p pv by auto
  then have "\<forall>k<2. elems p ! k = Fin 1" by (simp add: less_2_cases_iff)
  with at_ij have "elems raw ! (0 * 2 + 1)
                    = Fin (1 * (\<Sum>k\<leftarrow>[0..<2]. elems demo_conv ! offset4 2 2 2 0 0 1 k))"
    by blast
  then have "elems raw ! (0 * 2 + 1) = Fin (1 * (3 + 4))" by (simp only: sv)
  with run i j raw show ?thesis by blast
qed

lemma sum_list_zero: "(\<And>x. x \<in> set xs \<Longrightarrow> f x = (0::real)) \<Longrightarrow> sum_list (map f xs) = 0"
  by (induction xs) simp_all

text \<open>
  Claim C3. For an activation with at least one spatial position, when the gradient
  tensor is entirely zero the pooled importance vector is all zeros, the raw heatmap is
  all zeros, its maximum is zero, and \<open>make_heatmap\<close> returns, without an error, a
  heatmap whose every entry is the unguarded \<open>0 / 0\<close>, that is \<open>NaN\<close>.
\<close>

theorem zero_gradient_gives_nan:
  assumes run: "valid_run model img name conv grads idx b h w c"
      and h: "0 < h" and w: "0 < w"
      and zero: "\<forall>x\<in>set (elems grads). x = 0"
  shows "pooled_grads (lift grads) = Inr \<lparr>shape = [c], elems = replicate c (Fin 0)\<rparr>
         \<and> (\<exists>raw. raw_heatmap img model name = Inr raw
                  \<and> elems raw = replicate (h * w) (Fin 0)
                  \<and> reduce_max raw = Fin 0
                  \<and> make_heatmap img model name
                      = Inr \<lparr>shape = shape raw, elems = replicate (h * w) NaN\<rparr>)"
proof -
  let ?n = "b * h * w"
  define raw where
    "raw = \<lparr>shape = filter (\<lambda>d. d \<noteq> 1) [h, w],
            elems = map (\<lambda>r. Fin (\<Sum>k\<leftarrow>[0..<c]. elems conv ! (r * c + k)
                                           * channel_mean ?n c (elems grads) k)) [0..<h * w]\<rparr>"
  have n: "0 < ?n" using valid_run_shapes(3) [OF run] h w by simp
  have hw: "0 < h * w" using h w by simp
  have len: "length (elems grads) = ?n * c"
    using valid_run_shapes(4,5) [OF run] by (simp add: wf_tensor_def)
  have cm: "channel_mean ?n c (elems grads) k = 0" if k: "k < c" for k
  proof -
    have "(\<Sum>q\<leftarrow>[0..<?n]. elems grads ! (q * c + k)) = 0"
    proof (rule sum_list_zero)
      fix q assume "q \<in> set [0..<?n]"
      then have "q * c + k < length (elems grads)"
        using offset_bound [of q ?n k c] k len by simp
      then have "elems grads ! (q * c + k) \<in> set (elems grads)" by (rule nth_mem)
      with zero show "elems grads ! (q * c + k) = 0" by blast
    qed
    then show ?thesis by (simp only: channel_mean_def div_0)
  qed
  have "map (\<lambda>k. Fin (channel_mean ?n c (elems grads) k)) [0..<c] = map (\<lambda>k. Fin 0) [0..<c]"
    by (rule map_cong [OF refl]) (simp add: cm)
  then have pooled: "pooled_grads (lift grads) = Inr \<lparr>shape = [c], elems = replicate c (Fin 0)\<rparr>"
    using pooled_grads_run [OF valid_run_shapes(4,5) [OF run] n]
    by (simp add: map_replicate_const)
  have rh: "raw_heatmap img model name = Inr raw"
    unfolding raw_def by (rule raw_heatmap_run [OF run])
  have entry: "(\<Sum>k\<leftarrow>[0..<c]. elems conv ! (r * c + k) * channel_mean ?n c (elems grads) k) = 0" for r
    by (rule sum_list_zero) (simp add: cm)
  have er: "elems raw = replicate (h * w) (Fin 0)"
    unfolding raw_def by (simp add: entry map_replicate_const)
  have fin: "elems raw = map Fin (replicate (h * w) 0)"
    by (simp add: er)
  have mx: "reduce_max raw = Fin 0"
    using reduce_max_Fin [OF fin] hw by simp
  have "elems (normalize_heatmap raw) = replicate (h * w) NaN"
    by (simp add: elems_normalize_Fin [OF fin] mx)
  then have "normalize_heatmap raw = \<lparr>shape = shape raw, elems = replicate (h * w) NaN\<rparr>"
    using shape_normalize [of raw] by simp
  then have mh: "make_heatmap img model name
                   = Inr \<lparr>shape = shape raw, elems = replicate (h * w) NaN\<rparr>"
    unfolding make_heatmap_def by (simp only: rh sum.case)
  show ?thesis using pooled rh er mx mh by blast
qed

theorem zero_gradient_gives_nan_witness:
  "valid_run (model_of demo_conv demo_preds (\<lambda>_. const_grads 0)) demo_img ''conv_last''
             demo_conv (const_grads 0) 1 1 2 2 2
   \<and> (0::nat) < 2
   \<and> elems (const_grads 0) = replicate 8 0
   \<and> make_heatmap demo_img (model_of demo_conv demo_preds (\<lambda>_. const_grads 0)) ''conv_last''
       = Inr \<lparr>shape = [2, 2], elems = [NaN, NaN, NaN, NaN]\<rparr>"
proof -
  let ?m = "model_of demo_conv demo_preds (\<lambda>_. const_grads 0)"
  have run: "valid_run ?m demo_img ''conv_last'' demo_conv (const_grads 0) 1 1 2 2 2"
    by code_simp
  have pos: "(0::nat) < 2" by simp
  have zero: "\<forall>x\<in>set (elems (const_grads 0)). x = 0" by (simp add: const_grads_def)
  have mh: "make_heatmap demo_img ?m ''conv_last''
              = Inr \<lparr>shape = [2, 2], elems = [NaN, NaN, NaN, NaN]\<rparr>"
    by code_simp
  have el: "elems (const_grads 0) = replicate 8 0" by (simp add: const_grads_def)
  show ?thesis
    using run pos el mh zero_gradient_gives_nan [OF run pos pos zero] by blast
qed

text \<open>
  Claim C7 says that the returned array is two-dimensional with the height and width of
  the layer's activation. \<^verbatim>\<open>tf.squeeze\<close> is called with no axis, so it removes a height
  or width of one together with the channel axis: for an activation of shape
  \<open>[1, 1, 1, 2]\<close> the result has no axes, for \<open>[1, 1, 3, 1]\<close> it has one.
\<close>

theorem squeeze_removes_unit_spatial_axes:
  "make_heatmap \<lparr>shape = [1, 1, 1, 1], elems = [0]\<rparr>
     (model_of \<lparr>shape = [1, 1, 1, 2], elems = [1, 2]\<rparr> demo_preds
               (\<lambda>_. \<lparr>shape = [1, 1, 1, 2], elems = [1, 1]\<rparr>)) ''conv_last''
     = Inr \<lparr>shape = [], elems = [Fin 1]\<rparr>
   \<and> make_heatmap \<lparr>shape = [1, 1, 3, 1], elems = [0, 0, 0]\<rparr>
     (model_of \<lparr>shape = [1, 1, 3, 1], elems = [1, 2, 4]\<rparr> demo_preds
               (\<lambda>_. \<lparr>shape = [1, 1, 3, 1], elems = [1, 1, 1]\<rparr>)) ''conv_last''
     = Inr \<lparr>shape = [3], elems = [Fin (1 / 4), Fin (1 / 2), Fin 1]\<rparr>"
  by code_simp

text \<open>
  In general the shape is \<open>[h, w]\<close> without its entries equal to one, with \<open>h * w\<close>
  elements; it is \<open>[h, w]\<close> when neither is one.
\<close>

lemma make_heatmap_shape:
  assumes run: "valid_run model img name conv grads idx b h w c"
  shows "\<exists>r. make_heatmap img model name = Inr r
             \<and> shape r = filter (\<lambda>d. d \<noteq> 1) [h, w] \<and> length (elems r) = h * w
             \<and> (h \<noteq> 1 \<and> w \<noteq> 1 \<longrightarrow> shape r = [h, w])"
proof -
  from make_heatmap_run [OF run] obtain raw where
    mh: "make_heatmap img model name = Inr (normalize_heatmap raw)"
    and sh: "shape raw = filter (\<lambda>d. d \<noteq> 1) [h, w]" and len: "length (elems raw) = h * w"
    by blast
  have l2: "length (elems (normalize_heatmap raw)) = h * w"
    unfolding normalize_heatmap_def divide_by_def maximum_def using len by simp
  show ?thesis
    using mh sh l2 shape_normalize [of raw] by auto
qed

section \<open>Properties of the overlay renderer\<close>

lemma dirname_save_path: "dirname save_path = ''data/save_fig''"
  by (simp add: dirname_def save_path_def)

lemma imshow_effect:
  "imshow X cm al wd = Inr wd1 \<Longrightarrow>
     axes_images wd1 = axes_images wd @ [\<lparr>picture = X, cmap = cm, alpha = al\<rparr>]
     \<and> dirs wd1 = dirs wd \<and> files wd1 = files wd"
  unfolding imshow_def by (auto split: if_splits)

lemma savefig_effect:
  "savefig save_path wd = Inr wd1 \<Longrightarrow>
     axes_images wd1 = axes_images wd \<and> dirs wd1 = dirs wd \<and> ''data/save_fig'' \<in> dirs wd
     \<and> files wd1 = (files wd)(save_path \<mapsto> Png (axes_images wd))"
  unfolding savefig_def dirname_save_path by (auto split: if_splits)

lemma savefig_missing_dir:
  "''data/save_fig'' \<notin> dirs wd \<Longrightarrow> savefig save_path wd = Inl FileNotFoundError"
  unfolding savefig_def dirname_save_path by simp

text \<open>
  Claim C8. Whatever the shapes of the heatmap and of the base image, the only heatmap
  layer the renderer puts on the axes is the result of resizing the heatmap to 64 by 64;
  when the call returns normally that layer is there, on top of the base image.
\<close>

theorem overlay_heatmap_is_64x64:
  assumes contract: "resize_contract resize"
  shows "case image_method resize image_arr heatmap wd of
           (out, wd') \<Rightarrow>
             (out \<noteq> None \<and> axes_images wd' = axes_images wd)
             \<or> (out \<noteq> None
                 \<and> axes_images wd'
                     = axes_images wd
                       @ [\<lparr>picture = lift image_arr, cmap = Some ''gray'', alpha = None\<rparr>])
             \<or> (\<exists>resized. resize heatmap (64, 64) = Inr resized
                   \<and> take 2 (shape resized) = [64, 64]
                   \<and> axes_images wd'
                       = axes_images wd
                         @ [\<lparr>picture = lift image_arr, cmap = Some ''gray'', alpha = None\<rparr>,
                            \<lparr>picture = resized, cmap = None, alpha = Some (4 / 10)\<rparr>])"
proof (cases "imshow (lift image_arr) (Some ''gray'') None wd")
  case (Inl e)
  then show ?thesis unfolding image_method_def by simp
next
  case (Inr wd1)
  note base = imshow_effect [OF Inr]
  show ?thesis
  proof (cases "resize heatmap (64, 64)")
    case (Inl e)
    then show ?thesis unfolding image_method_def using Inr base by simp
  next
    case rs: (Inr resized)
    have sz: "take 2 (shape resized) = [64, 64]"
      using contract rs unfolding resize_contract_def by blast
    show ?thesis
    proof (cases "imshow resized None (Some (4 / 10)) wd1")
      case (Inl e)
      then show ?thesis unfolding image_method_def using Inr rs base by simp
    next
      case top: (Inr wd2)
      note t = imshow_effect [OF top]
      show ?thesis
      proof (cases "savefig save_path wd2")
        case (Inl e)
        then show ?thesis unfolding image_method_def using Inr rs top base t sz by simp
      next
        case sv: (Inr wd3)
        note s = savefig_effect [OF sv]
        show ?thesis unfolding image_method_def using Inr rs top sv base t s sz by simp
      qed
    qed
  qed
qed

lemma fill_resize_contract: "resize_contract fill_resize"
  unfolding resize_contract_def fill_resize_def by (auto split: list.splits)

theorem overlay_heatmap_is_64x64_witness:
  "resize_contract fill_resize
   \<and> fst (image_method fill_resize \<lparr>shape = [2, 2], elems = [0, 0, 0, 0]\<rparr>
              \<lparr>shape = [7, 7], elems = replicate 49 (Fin 1)\<rparr> fresh_world) = None
   \<and> map (\<lambda>d. shape (picture d))
         (axes_images (snd (image_method fill_resize \<lparr>shape = [2, 2], elems = [0, 0, 0, 0]\<rparr>
              \<lparr>shape = [7, 7], elems = replicate 49 (Fin 1)\<rparr> fresh_world)))
       = [[2, 2], [64, 64]]"
proof -
  let ?res = "image_method fill_resize \<lparr>shape = [2, 2], elems = [0, 0, 0, 0]\<rparr>
                \<lparr>shape = [7, 7], elems = replicate 49 (Fin 1)\<rparr> fresh_world"
  have ok: "fst ?res = None"
    by code_simp
  from overlay_heatmap_is_64x64 [OF fill_resize_contract,
      where image_arr = "\<lparr>shape = [2, 2], elems = [0, 0, 0, 0]\<rparr>"
        and heatmap = "\<lparr>shape = [7, 7], elems = replicate 49 (Fin 1)\<rparr>"
        and wd = fresh_world] ok
  obtain resized where
    rs: "fill_resize \<lparr>shape = [7, 7], elems = replicate 49 (Fin 1)\<rparr> (64, 64) = Inr resized"
    and ax: "axes_images (snd ?res)
              = axes_images fresh_world
                @ [\<lparr>picture = lift \<lparr>shape = [2, 2], elems = [0, 0, 0, 0]\<rparr>,
                     cmap = Some ''gray'', alpha = None\<rparr>,
                   \<lparr>picture = resized, cmap = None, alpha = Some (4 / 10)\<rparr>]"
    by (cases ?res) auto
  have "shape resized = [64, 64]"
    using rs by (auto simp: fill_resize_def split: list.splits)
  then show ?thesis
    using fill_resize_contract ok ax by (simp add: fresh_world_def lift_def)
qed

lemma image_method_files:
  "case image_method resize image_arr heatmap wd of
     (out, wd') \<Rightarrow>
       dirs wd' = dirs wd
       \<and> (\<forall>p. p \<noteq> save_path \<longrightarrow> files wd' p = files wd p)
       \<and> (out = None \<longrightarrow> files wd' save_path = Some (Png (axes_images wd')))
       \<and> (''data/save_fig'' \<notin> dirs wd \<longrightarrow> out \<noteq> None \<and> files wd' = files wd)"
proof (cases "imshow (lift image_arr) (Some ''gray'') None wd")
  case (Inl e)
  then show ?thesis unfolding image_method_def by simp
next
  case (Inr wd1)
  note base = imshow_effect [OF Inr]
  show ?thesis
  proof (cases "resize heatmap (64, 64)")
    case (Inl e)
    then show ?thesis unfolding image_method_def using Inr base by simp
  next
    case rs: (Inr resized)
    show ?thesis
    proof (cases "imshow resized None (Some (4 / 10)) wd1")
      case (Inl e)
      then show ?thesis unfolding image_method_def using Inr rs base by simp
    next
      case top: (Inr wd2)
      note t = imshow_effect [OF top]
      show ?thesis
      proof (cases "savefig save_path wd2")
        case (Inl e)
        then show ?thesis unfolding image_method_def using Inr rs top base t by simp
      next
        case sv: (Inr wd3)
        note s = savefig_effect [OF sv]
        show ?thesis unfolding image_method_def using Inr rs top sv base t s by simp
      qed
    qed
  qed
qed

lemma image_method_twice:
  assumes c1: "image_method resize image_arr heatmap wd = (None, wd1)"
      and c2: "image_method resize image_next heatmap_next wd1 = (None, wd2)"
  shows "files wd2 = (files wd)(save_path \<mapsto> Png (axes_images wd2))
         \<and> dom (files wd2) = insert save_path (dom (files wd))"
proof -
  have f1: "\<forall>p. p \<noteq> save_path \<longrightarrow> files wd1 p = files wd p"
    using image_method_files [where resize = resize and image_arr = image_arr
        and heatmap = heatmap and wd = wd] c1 by simp
  have f2: "\<forall>p. p \<noteq> save_path \<longrightarrow> files wd2 p = files wd1 p"
    and v2: "files wd2 save_path = Some (Png (axes_images wd2))"
    using image_method_files [where resize = resize and image_arr = image_next
        and heatmap = heatmap_next and wd = wd1] c2 by simp_all
  have eq: "files wd2 = (files wd)(save_path \<mapsto> Png (axes_images wd2))"
  proof (rule ext)
    fix p show "files wd2 p = ((files wd)(save_path \<mapsto> Png (axes_images wd2))) p"
    proof (cases "p = save_path")
      case True
      then show ?thesis using v2 by simp
    next
      case False
      then show ?thesis using f1 f2 by simp
    qed
  qed
  have "dom ((files wd)(save_path \<mapsto> Png (axes_images wd2))) = insert save_path (dom (files wd))"
    by simp
  with eq show ?thesis by simp
qed

text \<open>
  Claim C9. The destination is the constant \<^verbatim>\<open>data/save_fig/fig_saved.png\<close>: a call
  changes no other file and creates no directory, a call that returns has written the
  figure to that path, a call fails and writes nothing when the directory
  \<^verbatim>\<open>data/save_fig\<close> does not exist, and a second call replaces the file of the first
  instead of adding one. \<open>image_method\<close> has no argument for the destination.
\<close>

theorem overlay_writes_fixed_path:
  "save_path = ''data/save_fig/fig_saved.png''
   \<and> (case image_method resize image_arr heatmap wd of
        (out, wd') \<Rightarrow>
          dirs wd' = dirs wd
          \<and> (\<forall>p. p \<noteq> save_path \<longrightarrow> files wd' p = files wd p)
          \<and> (out = None \<longrightarrow> files wd' save_path = Some (Png (axes_images wd')))
          \<and> (''data/save_fig'' \<notin> dirs wd \<longrightarrow> out \<noteq> None \<and> files wd' = files wd))
   \<and> (\<forall>wd1 wd2. image_method resize image_arr heatmap wd = (None, wd1)
          \<longrightarrow> image_method resize image_next heatmap_next wd1 = (None, wd2)
          \<longrightarrow> files wd2 = (files wd)(save_path \<mapsto> Png (axes_images wd2))
              \<and> dom (files wd2) = insert save_path (dom (files wd)))"
proof -
  have p1: "save_path = ''data/save_fig/fig_saved.png''" by (rule save_path_def)
  have p2: "case image_method resize image_arr heatmap wd of
        (out, wd') \<Rightarrow>
          dirs wd' = dirs wd
          \<and> (\<forall>p. p \<noteq> save_path \<longrightarrow> files wd' p = files wd p)
          \<and> (out = None \<longrightarrow> files wd' save_path = Some (Png (axes_images wd')))
          \<and> (''data/save_fig'' \<notin> dirs wd \<longrightarrow> out \<noteq> None \<and> files wd' = files wd)"
    by (rule image_method_files)
  have p3: "\<forall>wd1 wd2. image_method resize image_arr heatmap wd = (None, wd1)
          \<longrightarrow> image_method resize image_next heatmap_next wd1 = (None, wd2)
          \<longrightarrow> files wd2 = (files wd)(save_path \<mapsto> Png (axes_images wd2))
              \<and> dom (files wd2) = insert save_path (dom (files wd))"
    by (intro allI impI) (rule image_method_twice)
  show ?thesis by (rule conjI [OF p1 conjI [OF p2 p3]])
qed

text \<open>
  The call returns normally when the base image has a shape \<^verbatim>\<open>imshow\<close> accepts, the
  heatmap can be resized to an accepted shape, and the directory exists.
\<close>

lemma image_method_returns:
  assumes "valid_image_shape (shape image_arr)"
      and "resize heatmap (64, 64) = Inr resized"
      and "valid_image_shape (shape resized)"
      and "''data/save_fig'' \<in> dirs wd"
  shows "fst (image_method resize image_arr heatmap wd) = None"
  using assms
  by (simp add: image_method_def imshow_def lift_def savefig_def dirname_save_path)

theorem overlay_writes_fixed_path_witness:
  "''data/save_fig'' \<notin> dirs bare_world
   \<and> fst (image_method fill_resize \<lparr>shape = [2, 2], elems = [0, 0, 0, 0]\<rparr>
              \<lparr>shape = [1, 1], elems = [Fin 1]\<rparr> bare_world) \<noteq> None
   \<and> files (snd (image_method fill_resize \<lparr>shape = [2, 2], elems = [0, 0, 0, 0]\<rparr>
              \<lparr>shape = [1, 1], elems = [Fin 1]\<rparr> bare_world)) = files bare_world
   \<and> fst (image_method fill_resize \<lparr>shape = [2, 2], elems = [0, 0, 0, 0]\<rparr>
              \<lparr>shape = [1, 1], elems = [Fin 1]\<rparr> fresh_world) = None
   \<and> fst (image_method fill_resize \<lparr>shape = [3, 3], elems = replicate 9 1\<rparr>
              \<lparr>shape = [1, 2], elems = [Fin 0, Fin 1]\<rparr>
              (snd (image_method fill_resize \<lparr>shape = [2, 2], elems = [0, 0, 0, 0]\<rparr>
                     \<lparr>shape = [1, 1], elems = [Fin 1]\<rparr> fresh_world))) = None
   \<and> dom (files (snd (image_method fill_resize \<lparr>shape = [3, 3], elems = replicate 9 1\<rparr>
              \<lparr>shape = [1, 2], elems = [Fin 0, Fin 1]\<rparr>
              (snd (image_method fill_resize \<lparr>shape = [2, 2], elems = [0, 0, 0, 0]\<rparr>
                     \<lparr>shape = [1, 1], elems = [Fin 1]\<rparr> fresh_world)))))
       = {''data/save_fig/fig_saved.png''}"
proof -
  let ?i1 = "\<lparr>shape = [2, 2], elems = [0, 0, 0, 0 :: real]\<rparr>"
  let ?h1 = "\<lparr>shape = [1, 1], elems = [Fin 1]\<rparr>"
  let ?i2 = "\<lparr>shape = [3, 3], elems = replicate 9 (1 :: real)\<rparr>"
  let ?h2 = "\<lparr>shape = [1, 2], elems = [Fin 0, Fin 1]\<rparr>"
  define bad where "bad = image_method fill_resize ?i1 ?h1 bare_world"
  define r1 where "r1 = image_method fill_resize ?i1 ?h1 fresh_world"
  define r2 where "r2 = image_method fill_resize ?i2 ?h2 (snd r1)"
  have nodir: "''data/save_fig'' \<notin> dirs bare_world" by (simp add: bare_world_def)
  have rs1: "fill_resize ?h1 (64, 64)
               = Inr \<lparr>shape = [64, 64], elems = replicate (64 * 64) (Fin 1)\<rparr>"
    by (simp add: fill_resize_def)
  have rs2: "fill_resize ?h2 (64, 64)
               = Inr \<lparr>shape = [64, 64], elems = replicate (64 * 64) (Fin 0)\<rparr>"
    by (simp add: fill_resize_def)
  have ok1: "fst r1 = None"
    unfolding r1_def
  proof (rule image_method_returns
      [where resize = fill_resize and heatmap = ?h1
         and resized = "\<lparr>shape = [64, 64], elems = replicate (64 * 64) (Fin 1)\<rparr>"])
    show "fill_resize ?h1 (64, 64)
            = Inr \<lparr>shape = [64, 64], elems = replicate (64 * 64) (Fin 1)\<rparr>"
      by (rule rs1)
    show "valid_image_shape (shape ?i1)" by (simp add: valid_image_shape_def)
    show "valid_image_shape (shape \<lparr>shape = [64, 64], elems = replicate (64 * 64) (Fin 1)\<rparr>)"
      by (simp add: valid_image_shape_def)
    show "''data/save_fig'' \<in> dirs fresh_world" by (simp add: fresh_world_def)
  qed
  have cb: "case bad of
        (out, wd') \<Rightarrow>
          dirs wd' = dirs bare_world
          \<and> (\<forall>p. p \<noteq> save_path \<longrightarrow> files wd' p = files bare_world p)
          \<and> (out = None \<longrightarrow> files wd' save_path = Some (Png (axes_images wd')))
          \<and> (''data/save_fig'' \<notin> dirs bare_world \<longrightarrow> out \<noteq> None \<and> files wd' = files bare_world)"
    unfolding bad_def
    by (rule conjunct1 [OF conjunct2 [OF overlay_writes_fixed_path]])
  obtain out w where bw: "bad = (out, w)" by (cases bad)
  have b: "fst bad \<noteq> None \<and> files (snd bad) = files bare_world"
    using cb nodir unfolding bw by simp
  have cg: "case r1 of
        (out, wd') \<Rightarrow>
          dirs wd' = dirs fresh_world
          \<and> (\<forall>p. p \<noteq> save_path \<longrightarrow> files wd' p = files fresh_world p)
          \<and> (out = None \<longrightarrow> files wd' save_path = Some (Png (axes_images wd')))
          \<and> (''data/save_fig'' \<notin> dirs fresh_world \<longrightarrow> out \<noteq> None \<and> files wd' = files fresh_world)"
    unfolding r1_def
    by (rule conjunct1 [OF conjunct2 [OF overlay_writes_fixed_path]])
  obtain out1 w1 where rw: "r1 = (out1, w1)" by (cases r1)
  have d1: "dirs (snd r1) = dirs fresh_world" using cg unfolding rw by simp
  have ok2: "fst r2 = None"
    unfolding r2_def
  proof (rule image_method_returns
      [where resize = fill_resize and heatmap = ?h2
         and resized = "\<lparr>shape = [64, 64], elems = replicate (64 * 64) (Fin 0)\<rparr>"])
    show "fill_resize ?h2 (64, 64)
            = Inr \<lparr>shape = [64, 64], elems = replicate (64 * 64) (Fin 0)\<rparr>"
      by (rule rs2)
    show "valid_image_shape (shape ?i2)" by (simp add: valid_image_shape_def)
    show "valid_image_shape (shape \<lparr>shape = [64, 64], elems = replicate (64 * 64) (Fin 0)\<rparr>)"
      by (simp add: valid_image_shape_def)
    show "''data/save_fig'' \<in> dirs (snd r1)" by (simp add: d1 fresh_world_def)
  qed
  have c1: "image_method fill_resize ?i1 ?h1 fresh_world = (None, snd r1)"
    using ok1 unfolding r1_def [symmetric] by (cases r1) simp
  have c2: "image_method fill_resize ?i2 ?h2 (snd r1) = (None, snd r2)"
    using ok2 unfolding r2_def [symmetric] by (cases r2) simp
  have "dom (files (snd r2)) = insert save_path (dom (files fresh_world))"
    using conjunct2 [OF conjunct2 [OF overlay_writes_fixed_path
        [where resize = fill_resize and image_arr = ?i1 and heatmap = ?h1 and wd = fresh_world
           and image_next = ?i2 and heatmap_next = ?h2]]] c1 c2
    by blast
  then have d: "dom (files (snd r2)) = {''data/save_fig/fig_saved.png''}"
    by (simp add: fresh_world_def save_path_def)
  show ?thesis
    using nodir b ok1 ok2 d unfolding bad_def r2_def r1_def by (intro conjI) blast+
qed

end
